theory Spec2Isabelle
  imports Main "HOL-Library.Word"
begin

section \<open>The block of go-nebulas (core/block.go)\<close>

text \<open>
  A shallow embedding of \<^verbatim>\<open>core/block.go\<close>. A Go method with a pointer receiver
  becomes a function that takes the block and returns the updated block beside its
  result. \<^verbatim>\<open>LinkParentBlock\<close> reaches other blocks through the parent pointers and
  writes their heights, so it works on a store of blocks. Panics are values of the type
  \<open>panic\<close>, Go errors are values of the type \<open>error\<close> (\<open>None\<close> is \<^verbatim>\<open>nil\<close>).
  Calls to the logger have no effect on the state and are left out.
\<close>

subsection \<open>Value types\<close>

type_synonym byte = "8 word"
type_synonym bytes = "byte list"

text \<open>\<^verbatim>\<open>Hash\<close> is a byte slice; \<^verbatim>\<open>Equals\<close> compares contents, so \<^verbatim>\<open>nil\<close> and the
  empty slice are the same value \<open>[]\<close>.\<close>

type_synonym Hash = bytes

datatype Address = Address (address: bytes)

type_synonym addr = nat

datatype error =
    ErrInvalidBlockHash
  | ErrInvalidBlockStateRoot
  | ErrExternal string

datatype panic = Panic string

definition BlockHashLength :: nat where
  "BlockHashLength = 32"

definition BlockReward :: "64 word" where
  "BlockReward = 16"

subsection \<open>Header and block\<close>

record BlockHeader =
  hash :: Hash
  parentHash :: Hash
  stateRoot :: Hash
  nonce :: "64 word"
  coinbase :: Address
  timestamp :: "64 word"
  chainID :: "32 word"

text \<open>
  The tries are kept by value in the block that owns them; \<open>txPool\<close> is the shared
  pool as this block sees it. \<open>parenetBlock\<close> (the source's spelling) is a pointer:
  an address in the store of blocks, \<open>None\<close> for \<^verbatim>\<open>nil\<close>. The pointers \<^verbatim>\<open>header\<close>,
  \<^verbatim>\<open>coinbase\<close>, \<^verbatim>\<open>stateTrie\<close>, \<^verbatim>\<open>txsTrie\<close> and \<^verbatim>\<open>txPool\<close> are taken to be set.
\<close>

record ('tx, 't, 'p) Block =
  header :: BlockHeader
  transactions :: "'tx list"
  sealed :: bool
  height :: "64 word"
  parenetBlock :: "addr option"
  stateTrie :: 't
  txsTrie :: 't
  txPool :: 'p

text \<open>Modelled from the spec: \<^verbatim>\<open>corepb.Account\<close> is generated code that is not part
  of \<^verbatim>\<open>block.go\<close>; the record keeps the balance field, the only one the block reads
  or writes. \<open>new_Account\<close> is Go's \<^verbatim>\<open>new(corepb.Account)\<close>, the zero value.\<close>

record Account =
  Balance :: "64 word"

definition new_Account :: Account where
  "new_Account = \<lparr>Balance = 0\<rparr>"

subsection \<open>Collaborators\<close>

text \<open>
  The state trie, the transaction, the transaction pool, the protobuf codec, the
  SHA3-256 hasher and the byte encoders of \<^verbatim>\<open>byteutils\<close> live outside \<^verbatim>\<open>block.go\<close>.
  They are parameters of the model: \<open>'t\<close> is the state of a trie, \<open>'tx\<close> a
  transaction, \<open>'p\<close> the state of the pool.
  \<^item> \<open>trie_Get\<close> returns \<open>None\<close> where the Go method returns a \<^verbatim>\<open>nil\<close> value;
  \<^item> \<open>trie_Put\<close> and \<open>pool_Put\<close> return the updated object;
  \<^item> \<open>trie_Clone\<close> returns the copy or the error;
  \<^item> \<open>tx_Execute\<close> returns its error and both tries as it leaves them;
  \<^item> \<open>sha3_256\<close> maps everything written to the hasher, in order, to the digest.
\<close>

record ('tx, 't, 'p) collaborators =
  trie_Get :: "'t \<Rightarrow> bytes \<Rightarrow> bytes option"
  trie_Put :: "'t \<Rightarrow> bytes \<Rightarrow> bytes \<Rightarrow> 't"
  trie_RootHash :: "'t \<Rightarrow> Hash"
  trie_Clone :: "'t \<Rightarrow> error + 't"
  tx_Hash :: "'tx \<Rightarrow> Hash"
  tx_Execute :: "'tx \<Rightarrow> 't \<Rightarrow> 't \<Rightarrow> error option \<times> 't \<times> 't"
  tx_Verify :: "'tx \<Rightarrow> error option"
  pool_Put :: "'p \<Rightarrow> 'tx \<Rightarrow> 'p"
  proto_Unmarshal :: "bytes \<Rightarrow> error + Account"
  proto_Marshal :: "Account \<Rightarrow> error + bytes"
  sha3_256 :: "bytes \<Rightarrow> Hash"
  FromUint64 :: "64 word \<Rightarrow> bytes"
  FromInt64 :: "64 word \<Rightarrow> bytes"

text \<open>\<^verbatim>\<open>bc.ConsensusHandler().VerifyBlock(block)\<close>: the chain is its consensus check.\<close>

record ('tx, 't, 'p) BlockChain =
  ConsensusHandler_VerifyBlock :: "('tx, 't, 'p) Block \<Rightarrow> error option"

subsection \<open>Accessors and mutators\<close>

definition Hash :: "('tx, 't, 'p) Block \<Rightarrow> Hash" where
  "Hash block = hash (header block)"

definition StateRoot :: "('tx, 't, 'p) Block \<Rightarrow> Hash" where
  "StateRoot block = stateRoot (header block)"

definition ParentHash :: "('tx, 't, 'p) Block \<Rightarrow> Hash" where
  "ParentHash block = parentHash (header block)"

definition SetNonce :: "('tx, 't, 'p) Block \<Rightarrow> 64 word \<Rightarrow> panic + ('tx, 't, 'p) Block" where
  "SetNonce block n =
     (if sealed block then Inl (Panic ''Sealed block can't be changed.'')
      else Inr (block\<lparr>header := (header block)\<lparr>nonce := n\<rparr>\<rparr>))"

definition SetTimestamp :: "('tx, 't, 'p) Block \<Rightarrow> 64 word \<Rightarrow> panic + ('tx, 't, 'p) Block" where
  "SetTimestamp block ts =
     (if sealed block then Inl (Panic ''Sealed block can't be changed.'')
      else Inr (block\<lparr>header := (header block)\<lparr>timestamp := ts\<rparr>\<rparr>))"

definition AddTransactions :: "('tx, 't, 'p) Block \<Rightarrow> 'tx list \<Rightarrow> panic + ('tx, 't, 'p) Block" where
  "AddTransactions block txs =
     (if sealed block then Inl (Panic ''Sealed block can't be changed.'')
      else Inr (block\<lparr>transactions := transactions block @ txs\<rparr>))"

subsection \<open>Hashing\<close>

text \<open>The hasher's state is what has been written to it; \<^verbatim>\<open>Sum\<close> digests all of it.\<close>

definition hasher_Write :: "bytes \<Rightarrow> bytes \<Rightarrow> bytes" where
  "hasher_Write hasher p = hasher @ p"

definition HashBlock :: "('tx, 't, 'p) collaborators \<Rightarrow> ('tx, 't, 'p) Block \<Rightarrow> Hash" where
  "HashBlock E block =
     (let hasher = [];
          hasher = hasher_Write hasher (parentHash (header block));
          hasher = hasher_Write hasher (FromUint64 E (nonce (header block)));
          hasher = hasher_Write hasher (address (coinbase (header block)));
          hasher = hasher_Write hasher (FromInt64 E (timestamp (header block)));
          hasher = foldl (\<lambda>hasher tx. hasher_Write hasher (tx_Hash E tx)) hasher (transactions block)
      in sha3_256 E hasher)"

subsection \<open>Reward and execution\<close>

definition rewardCoinbase ::
  "('tx, 't, 'p) collaborators \<Rightarrow> ('tx, 't, 'p) Block \<Rightarrow> error option \<times> ('tx, 't, 'p) Block" where
  "rewardCoinbase E block =
     (let coinbaseAddr = address (coinbase (header block)) in
      case (case trie_Get E (stateTrie block) coinbaseAddr of
              None \<Rightarrow> Inr new_Account
            | Some v \<Rightarrow> proto_Unmarshal E v) of
        Inl err \<Rightarrow> (Some err, block)
      | Inr coinbaseAccount \<Rightarrow>
          (case proto_Marshal E (coinbaseAccount\<lparr>Balance := Balance coinbaseAccount + BlockReward\<rparr>) of
             Inl err \<Rightarrow> (Some err, block)
           | Inr coinbaseBytes \<Rightarrow>
               (None, block\<lparr>stateTrie := trie_Put E (stateTrie block) coinbaseAddr coinbaseBytes\<rparr>)))"

text \<open>The first loop of \<^verbatim>\<open>executeTransactions\<close>: \<open>idx\<close> is the index of the head of
  the remaining transactions; the state is both tries and \<^verbatim>\<open>invalidTxs\<close>.\<close>

fun executeLoop ::
  "('tx, 't, 'p) collaborators \<Rightarrow> nat \<Rightarrow> 'tx list \<Rightarrow> 't \<times> 't \<times> nat list \<Rightarrow> 't \<times> 't \<times> nat list" where
  "executeLoop E idx [] st = st"
| "executeLoop E idx (tx # rest) (sTrie, tTrie, invalidTxs) =
     (case tx_Execute E tx sTrie tTrie of
        (err, sTrie', tTrie') \<Rightarrow>
          executeLoop E (idx + 1) rest
            (sTrie', tTrie', if err \<noteq> None then invalidTxs @ [idx] else invalidTxs))"

text \<open>
  The second loop runs over \<^verbatim>\<open>invalidTxs\<close> from its last index to its first; the
  argument is that list reversed. \<^verbatim>\<open>txs[:idx]\<close> is \<open>take idx txs\<close>, \<^verbatim>\<open>txs[0:]\<close> is
  \<open>drop 0 txs\<close>, and \<^verbatim>\<open>append(txs[:idx], txs[idx+1:]...)\<close> is
  \<open>take idx txs @ drop (idx + 1) txs\<close>. The indices stay below the length of \<open>txs\<close>
  (lemma \<open>removeLoop_in_range\<close> below), so \<^verbatim>\<open>txs[idx]\<close> does not panic.
\<close>

fun removeLoop ::
  "('tx, 't, 'p) collaborators \<Rightarrow> nat \<Rightarrow> nat list \<Rightarrow> 'tx list \<times> 'p \<Rightarrow> 'tx list \<times> 'p" where
  "removeLoop E lenOfTxs [] st = st"
| "removeLoop E lenOfTxs (idx # rest) (txs, pool) =
     (let pool = pool_Put E pool (txs ! idx) in
      if idx = lenOfTxs - 1 then removeLoop E lenOfTxs rest (take idx txs, pool)
      else if idx = 0 then removeLoop E lenOfTxs rest (drop 0 txs, pool)
      else removeLoop E lenOfTxs rest (take idx txs @ drop (idx + 1) txs, pool))"

definition executeTransactions ::
  "('tx, 't, 'p) collaborators \<Rightarrow> ('tx, 't, 'p) Block \<Rightarrow> ('tx, 't, 'p) Block" where
  "executeTransactions E block =
     (case executeLoop E 0 (transactions block) (stateTrie block, txsTrie block, []) of
        (sTrie, tTrie, invalidTxs) \<Rightarrow>
          (case removeLoop E (length (transactions block)) (rev invalidTxs)
                  (transactions block, txPool block) of
             (txs, pool) \<Rightarrow>
               block\<lparr>transactions := txs, stateTrie := sTrie, txsTrie := tTrie,
                     txPool := pool\<rparr>))"

definition HashBlockStateRoot ::
  "('tx, 't, 'p) collaborators \<Rightarrow> ('tx, 't, 'p) Block \<Rightarrow> Hash \<times> ('tx, 't, 'p) Block" where
  "HashBlockStateRoot E block =
     (let (_, block) = rewardCoinbase E block;
          block = executeTransactions E block
      in (trie_RootHash E (stateTrie block), block))"

subsection \<open>Sealing and verification\<close>

definition Seal :: "('tx, 't, 'p) collaborators \<Rightarrow> ('tx, 't, 'p) Block \<Rightarrow> ('tx, 't, 'p) Block" where
  "Seal E block =
     (if sealed block then block
      else
        (let block = block\<lparr>header := (header block)\<lparr>hash := HashBlock E block\<rparr>\<rparr>;
             (root, block) = HashBlockStateRoot E block;
             block = block\<lparr>header := (header block)\<lparr>stateRoot := root\<rparr>\<rparr>
         in block\<lparr>sealed := True\<rparr>))"

fun verifyTransactions :: "('tx, 't, 'p) collaborators \<Rightarrow> 'tx list \<Rightarrow> error option" where
  "verifyTransactions E [] = None"
| "verifyTransactions E (tx # rest) =
     (case tx_Verify E tx of Some err \<Rightarrow> Some err | None \<Rightarrow> verifyTransactions E rest)"

definition VerifyHash ::
  "('tx, 't, 'p) collaborators \<Rightarrow> ('tx, 't, 'p) BlockChain \<Rightarrow> ('tx, 't, 'p) Block \<Rightarrow> error option" where
  "VerifyHash E bc block =
     (case ConsensusHandler_VerifyBlock bc block of
        Some err \<Rightarrow> Some err
      | None \<Rightarrow>
          (let wantedHash = HashBlock E block in
           if wantedHash \<noteq> Hash block then Some ErrInvalidBlockHash
           else verifyTransactions E (transactions block)))"

definition VerifyStateRoot ::
  "('tx, 't, 'p) collaborators \<Rightarrow> ('tx, 't, 'p) Block \<Rightarrow> error option \<times> ('tx, 't, 'p) Block" where
  "VerifyStateRoot E block =
     (let (wantedStateRoot, block) = HashBlockStateRoot E block in
      if wantedStateRoot \<noteq> StateRoot block then (Some ErrInvalidBlockStateRoot, block)
      else (None, block))"

definition Verify ::
  "('tx, 't, 'p) collaborators \<Rightarrow> ('tx, 't, 'p) BlockChain \<Rightarrow> ('tx, 't, 'p) Block
    \<Rightarrow> error option \<times> ('tx, 't, 'p) Block" where
  "Verify E bc block =
     (case VerifyHash E bc block of
        Some err \<Rightarrow> (Some err, block)
      | None \<Rightarrow> VerifyStateRoot E block)"

subsection \<open>Linking a block to its parent\<close>

text \<open>
  The store gives the block at every address; a \<^verbatim>\<open>*Block\<close> is an address. The walk
  up the parent pointers does not end on a cycle of blocks of height 0, so its result
  is optional: \<open>None\<close> is the walk that never returns.
\<close>

type_synonym ('tx, 't, 'p) store = "addr \<Rightarrow> ('tx, 't, 'p) Block"

partial_function (option) travel ::
  "('tx, 't, 'p) store \<Rightarrow> addr option \<Rightarrow> 64 word \<Rightarrow> 64 word \<Rightarrow> (64 word \<times> 64 word) option" where
  "travel h ancestor depth ancestorHeight =
     (case ancestor of
        None \<Rightarrow> Some (depth, ancestorHeight)
      | Some a \<Rightarrow>
          if height (h a) > 0 then Some (depth + 1, height (h a))
          else travel h (parenetBlock (h a)) (depth + 1) (height (h a)))"

function assignHeights ::
  "('tx, 't, 'p) store \<Rightarrow> addr option \<Rightarrow> 64 word \<Rightarrow> 64 word \<Rightarrow> ('tx, 't, 'p) store" where
  "assignHeights h ancestor depth ancestorHeight =
     (case ancestor of
        None \<Rightarrow> h
      | Some a \<Rightarrow>
          if depth > 1
          then assignHeights (h(a := (h a)\<lparr>height := ancestorHeight + (depth - 1)\<rparr>))
                 (parenetBlock (h a)) (depth - 1) ancestorHeight
          else h)"
  by pat_completeness auto
termination
proof (relation "measure (\<lambda>(h, ancestor, depth, ancestorHeight). unat depth)")
  show "wf (measure (\<lambda>(h :: ('tx, 't, 'p) store, ancestor :: addr option, depth :: 64 word,
                        ancestorHeight :: 64 word). unat depth))"
    by simp
next
  fix h :: "('tx, 't, 'p) store" and ancestor :: "addr option" and depth ancestorHeight :: "64 word"
    and a :: addr
  assume "1 < depth"
  then have "depth \<noteq> 0" by auto
  then have "unat (depth - 1) = unat depth - 1" by (rule unat_minus_one)
  moreover have "0 < unat depth" using \<open>depth \<noteq> 0\<close> by (simp add: unat_gt_0)
  ultimately show "((h(a := (h a)\<lparr>height := ancestorHeight + (depth - 1)\<rparr>), parenetBlock (h a),
                     depth - 1, ancestorHeight), (h, ancestor, depth, ancestorHeight))
                   \<in> measure (\<lambda>(h, ancestor, depth, ancestorHeight). unat depth)"
    by simp
qed

declare assignHeights.simps [simp del]

text \<open>\<^verbatim>\<open>log.Fatal\<close> and the \<^verbatim>\<open>panic\<close> after it end the call when the clone fails.\<close>

definition LinkParentBlock ::
  "('tx, 't, 'p) collaborators \<Rightarrow> ('tx, 't, 'p) store \<Rightarrow> addr \<Rightarrow> addr
    \<Rightarrow> (panic + bool \<times> ('tx, 't, 'p) store) option" where
  "LinkParentBlock E h block parentBlock =
     (if ParentHash (h block) \<noteq> Hash (h parentBlock) then Some (Inr (False, h))
      else
        (case trie_Clone E (stateTrie (h parentBlock)) of
           Inl err \<Rightarrow> Some (Inl (Panic ''clone state trie from parent block fail.''))
         | Inr clone \<Rightarrow>
             (let h = h(block := (h block)\<lparr>stateTrie := clone, parenetBlock := Some parentBlock\<rparr>) in
              case travel h (Some block) 0 0 of
                None \<Rightarrow> None
              | Some (depth, ancestorHeight) \<Rightarrow>
                  Some (Inr (True, assignHeights h (Some block) depth ancestorHeight)))))"

text \<open>
  The blocks a walk from \<open>a\<close> passes before it stops: \<open>unresolved h a xs t\<close> says that
  the walk visits the blocks \<open>xs\<close>, each of height 0 and with a parent, and stops at
  \<open>t\<close>, the first block of positive height or without parent.
\<close>

fun unresolved :: "('tx, 't, 'p) store \<Rightarrow> addr \<Rightarrow> addr list \<Rightarrow> addr \<Rightarrow> bool" where
  "unresolved h a [] t = (a = t \<and> (height (h t) > 0 \<or> parenetBlock (h t) = None))"
| "unresolved h a (x # xs) t =
     (a = x \<and> height (h x) = 0 \<and>
      (case parenetBlock (h x) of None \<Rightarrow> False | Some y \<Rightarrow> unresolved h y xs t))"

text \<open>Every \<^verbatim>\<open>txs[idx]\<close>, \<^verbatim>\<open>txs[:idx]\<close> and \<^verbatim>\<open>txs[idx+1:]\<close> of the second loop of
  \<^verbatim>\<open>executeTransactions\<close> is within the slice it reads.\<close>

fun removeLoop_in_bounds :: "nat \<Rightarrow> nat list \<Rightarrow> 'tx list \<Rightarrow> bool" where
  "removeLoop_in_bounds lenOfTxs [] txs = True"
| "removeLoop_in_bounds lenOfTxs (idx # rest) txs =
     (idx < length txs \<and>
      (if idx = lenOfTxs - 1 then removeLoop_in_bounds lenOfTxs rest (take idx txs)
       else if idx = 0 then removeLoop_in_bounds lenOfTxs rest (drop 0 txs)
       else removeLoop_in_bounds lenOfTxs rest (take idx txs @ drop (idx + 1) txs)))"

text \<open>The indices \<^verbatim>\<open>invalidTxs\<close> that \<^verbatim>\<open>executeTransactions\<close> records on a block.\<close>

definition invalidTxsOf :: "('tx, 't, 'p) collaborators \<Rightarrow> ('tx, 't, 'p) Block \<Rightarrow> nat list" where
  "invalidTxsOf E block =
     snd (snd (executeLoop E 0 (transactions block) (stateTrie block, txsTrie block, [])))"

subsection \<open>An instance of the collaborators\<close>

text \<open>
  A small implementation of the collaborators, to run the operations on concrete
  blocks. The trie is an association list with the newest binding first and one binding
  for each key; its root is its bindings written out one after the other, so the root
  follows the contents. An account is encoded as the eight bytes of
  its balance, most significant first; the decoder rejects any other length. A
  transaction carries its hash and whether it executes and verifies; executing it
  stores its hash in both tries. The pool is the list of the transactions put into it,
  and the hasher returns what was written to it.
\<close>

datatype SampleTx = SampleTx (txHash: bytes) (executes: bool) (verifies: bool)

definition sample_Put :: "(bytes \<times> bytes) list \<Rightarrow> bytes \<Rightarrow> bytes \<Rightarrow> (bytes \<times> bytes) list" where
  "sample_Put t k v = (k, v) # filter (\<lambda>kv. fst kv \<noteq> k) t"

definition sample_FromUint64 :: "64 word \<Rightarrow> bytes" where
  "sample_FromUint64 w = map (\<lambda>i. ucast (drop_bit (8 * i) w)) [7, 6, 5, 4, 3, 2, 1, 0]"

definition sample_Uint64 :: "bytes \<Rightarrow> 64 word" where
  "sample_Uint64 bs = foldl (\<lambda>w b. push_bit 8 w + ucast b) 0 bs"

definition sample_Execute ::
  "SampleTx \<Rightarrow> (bytes \<times> bytes) list \<Rightarrow> (bytes \<times> bytes) list
    \<Rightarrow> error option \<times> (bytes \<times> bytes) list \<times> (bytes \<times> bytes) list" where
  "sample_Execute tx st tt =
     (if executes tx then (None, sample_Put st (txHash tx) [1], sample_Put tt (txHash tx) [1])
      else (Some (ErrExternal ''execute fail''), st, tt))"

definition sample :: "(SampleTx, (bytes \<times> bytes) list, SampleTx list) collaborators" where
  "sample =
     \<lparr>trie_Get = map_of,
      trie_Put = sample_Put,
      trie_RootHash = (\<lambda>t. concat (map (\<lambda>kv. fst kv @ snd kv) t)),
      trie_Clone = Inr,
      tx_Hash = txHash,
      tx_Execute = sample_Execute,
      tx_Verify = (\<lambda>tx. if verifies tx then None else Some (ErrExternal ''verify fail'')),
      pool_Put = (\<lambda>pool tx. pool @ [tx]),
      proto_Unmarshal =
        (\<lambda>v. if length v = 8 then Inr \<lparr>Balance = sample_Uint64 v\<rparr>
             else Inl (ErrExternal ''unmarshal fail'')),
      proto_Marshal = (\<lambda>a. Inr (sample_FromUint64 (Balance a))),
      sha3_256 = (\<lambda>written. written),
      FromUint64 = sample_FromUint64,
      FromInt64 = sample_FromUint64\<rparr>"

definition sample_header :: BlockHeader where
  "sample_header =
     \<lparr>hash = [], parentHash = [7], stateRoot = [], nonce = 5, coinbase = Address [9],
      timestamp = 1000, chainID = 1\<rparr>"

definition sample_block ::
  "SampleTx list \<Rightarrow> (SampleTx, (bytes \<times> bytes) list, SampleTx list) Block" where
  "sample_block txs =
     \<lparr>header = sample_header, transactions = txs, sealed = False, height = 0,
      parenetBlock = None, stateTrie = [], txsTrie = [], txPool = []\<rparr>"

definition sample_chain_block ::
  "Hash \<Rightarrow> Hash \<Rightarrow> addr option \<Rightarrow> (SampleTx, (bytes \<times> bytes) list, SampleTx list) Block" where
  "sample_chain_block h parent link =
     (sample_block [])\<lparr>header := sample_header\<lparr>hash := h, parentHash := parent\<rparr>,
                       parenetBlock := link\<rparr>"

text \<open>A store with a genesis block at address 0 (and at every unused address), a block
  A at 1 that points to the genesis and a block B at 2 whose parent hash is A's hash.
  No height is resolved yet.\<close>

definition sample_store :: "(SampleTx, (bytes \<times> bytes) list, SampleTx list) store" where
  "sample_store =
     (\<lambda>a. sample_chain_block [1] [] None)
       (1 := sample_chain_block [2] [1] (Some 0),
        2 := sample_chain_block [3] [2] None)"

text \<open>A consensus check that accepts the blocks with a nonce other than 0.\<close>

definition sample_chain :: "(SampleTx, (bytes \<times> bytes) list, SampleTx list) BlockChain" where
  "sample_chain =
     \<lparr>ConsensusHandler_VerifyBlock =
        (\<lambda>block. if nonce (header block) = 0 then Some (ErrExternal ''consensus fail'') else None)\<rparr>"

text \<open>The block as a receiver holds it before verification: the header that \<^verbatim>\<open>Seal\<close>
  stored, with the transactions and the tries as they were when \<^verbatim>\<open>Seal\<close> was called.\<close>

definition sample_received ::
  "SampleTx list \<Rightarrow> (SampleTx, (bytes \<times> bytes) list, SampleTx list) Block" where
  "sample_received txs = (sample_block txs)\<lparr>header := header (Seal sample (sample_block txs))\<rparr>"

section \<open>Properties\<close>

subsection \<open>Hashing\<close>

lemma foldl_append_hashes:
  "foldl (\<lambda>hasher tx. hasher @ f tx) acc txs = acc @ concat (map f txs)"
  by (induction txs arbitrary: acc) simp_all

lemma HashBlock_digest:
  "HashBlock E block =
     sha3_256 E (parentHash (header block) @ FromUint64 E (nonce (header block)) @
                 address (coinbase (header block)) @ FromInt64 E (timestamp (header block)) @
                 concat (map (tx_Hash E) (transactions block)))"
  by (simp add: HashBlock_def Let_def hasher_Write_def foldl_append_hashes)

text \<open>
  Claim C5. \<^verbatim>\<open>HashBlock\<close> digests, in this order, the parent hash, the encoded nonce,
  the coinbase address, the encoded timestamp and the hash of each transaction in list
  order. Two blocks that agree on these five inputs have the same digest, whatever else
  differs, and the state root of the header has no influence on it. The encoders
  \<^verbatim>\<open>FromUint64\<close> and \<^verbatim>\<open>FromInt64\<close> take the 64-bit nonce and timestamp.
\<close>

theorem HashBlock_pure:
  "HashBlock E block =
     sha3_256 E (parentHash (header block) @ FromUint64 E (nonce (header block)) @
                 address (coinbase (header block)) @ FromInt64 E (timestamp (header block)) @
                 concat (map (tx_Hash E) (transactions block)))
   \<and> (parentHash (header block') = parentHash (header block) \<and>
      nonce (header block') = nonce (header block) \<and>
      coinbase (header block') = coinbase (header block) \<and>
      timestamp (header block') = timestamp (header block) \<and>
      map (tx_Hash E) (transactions block') = map (tx_Hash E) (transactions block)
      \<longrightarrow> HashBlock E block' = HashBlock E block)
   \<and> HashBlock E (block\<lparr>header := (header block)\<lparr>stateRoot := r\<rparr>\<rparr>) = HashBlock E block"
  by (simp add: HashBlock_digest)

theorem HashBlock_pure_witness:
  "parentHash (header (Seal sample (sample_block [SampleTx [1] True True]))) =
     parentHash (header (sample_block [SampleTx [1] True False])) \<and>
   nonce (header (Seal sample (sample_block [SampleTx [1] True True]))) =
     nonce (header (sample_block [SampleTx [1] True False])) \<and>
   coinbase (header (Seal sample (sample_block [SampleTx [1] True True]))) =
     coinbase (header (sample_block [SampleTx [1] True False])) \<and>
   timestamp (header (Seal sample (sample_block [SampleTx [1] True True]))) =
     timestamp (header (sample_block [SampleTx [1] True False])) \<and>
   map (tx_Hash sample) (transactions (Seal sample (sample_block [SampleTx [1] True True]))) =
     map (tx_Hash sample) (transactions (sample_block [SampleTx [1] True False])) \<and>
   stateRoot (header (Seal sample (sample_block [SampleTx [1] True True]))) \<noteq>
     stateRoot (header (sample_block [SampleTx [1] True False])) \<and>
   HashBlock sample (Seal sample (sample_block [SampleTx [1] True True])) =
     HashBlock sample (sample_block [SampleTx [1] True False])"
proof -
  let ?b' = "Seal sample (sample_block [SampleTx [1] True True])"
  let ?b = "sample_block [SampleTx [1] True False]"
  have h1: "parentHash (header ?b') = parentHash (header ?b)" by code_simp
  have h2: "nonce (header ?b') = nonce (header ?b)" by code_simp
  have h3: "coinbase (header ?b') = coinbase (header ?b)" by code_simp
  have h4: "timestamp (header ?b') = timestamp (header ?b)" by code_simp
  have h5: "map (tx_Hash sample) (transactions ?b') = map (tx_Hash sample) (transactions ?b)"
    by code_simp
  have h6: "stateRoot (header ?b') \<noteq> stateRoot (header ?b)" by code_simp
  from HashBlock_pure [of sample ?b ?b'] h1 h2 h3 h4 h5
  have "HashBlock sample ?b' = HashBlock sample ?b" by blast
  with h1 h2 h3 h4 h5 h6 show ?thesis by blast
qed

subsection \<open>Mutators and sealing\<close>

text \<open>
  Claim C6. \<^verbatim>\<open>SetNonce\<close>, \<^verbatim>\<open>SetTimestamp\<close> and \<^verbatim>\<open>AddTransactions\<close> panic exactly
  when the block is sealed. On an unsealed block they return the block with the nonce
  set, with the timestamp set, or with the given transactions appended in order, and
  nothing else changed.
\<close>

theorem mutators_sealed:
  "(isl (SetNonce block n) \<longleftrightarrow> sealed block) \<and>
   (isl (SetTimestamp block ts) \<longleftrightarrow> sealed block) \<and>
   (isl (AddTransactions block txs) \<longleftrightarrow> sealed block) \<and>
   (\<not> sealed block \<longrightarrow>
      SetNonce block n = Inr (block\<lparr>header := (header block)\<lparr>nonce := n\<rparr>\<rparr>) \<and>
      SetTimestamp block ts = Inr (block\<lparr>header := (header block)\<lparr>timestamp := ts\<rparr>\<rparr>) \<and>
      AddTransactions block txs = Inr (block\<lparr>transactions := transactions block @ txs\<rparr>))"
  by (simp add: SetNonce_def SetTimestamp_def AddTransactions_def)

theorem mutators_sealed_witness:
  "\<not> sealed (sample_block [SampleTx [1] True True]) \<and>
   SetNonce (sample_block [SampleTx [1] True True]) 8 =
     Inr ((sample_block [SampleTx [1] True True])\<lparr>header := sample_header\<lparr>nonce := 8\<rparr>\<rparr>) \<and>
   SetTimestamp (sample_block [SampleTx [1] True True]) 2000 =
     Inr ((sample_block [SampleTx [1] True True])\<lparr>header := sample_header\<lparr>timestamp := 2000\<rparr>\<rparr>) \<and>
   AddTransactions (sample_block [SampleTx [1] True True]) [SampleTx [2] True True, SampleTx [3] True True] =
     Inr (sample_block [SampleTx [1] True True, SampleTx [2] True True, SampleTx [3] True True]) \<and>
   sealed (Seal sample (sample_block [])) \<and>
   isl (SetNonce (Seal sample (sample_block [])) 8) \<and>
   isl (SetTimestamp (Seal sample (sample_block [])) 2000) \<and>
   isl (AddTransactions (Seal sample (sample_block [])) [SampleTx [2] True True])"
proof -
  let ?b = "sample_block [SampleTx [1] True True]"
  let ?s = "Seal sample (sample_block [])"
  have u: "\<not> sealed ?b" by (simp add: sample_block_def)
  have s: "sealed ?s" by code_simp
  have hd: "header ?b = sample_header" by (simp add: sample_block_def)
  have tx: "?b\<lparr>transactions := transactions ?b @ [SampleTx [2] True True, SampleTx [3] True True]\<rparr> =
      sample_block [SampleTx [1] True True, SampleTx [2] True True, SampleTx [3] True True]"
    by (simp add: sample_block_def)
  from mutators_sealed [of ?b 8 2000 "[SampleTx [2] True True, SampleTx [3] True True]"] u
  have "SetNonce ?b 8 = Inr (?b\<lparr>header := (header ?b)\<lparr>nonce := 8\<rparr>\<rparr>)"
    and "SetTimestamp ?b 2000 = Inr (?b\<lparr>header := (header ?b)\<lparr>timestamp := 2000\<rparr>\<rparr>)"
    and "AddTransactions ?b [SampleTx [2] True True, SampleTx [3] True True] =
      Inr (?b\<lparr>transactions := transactions ?b @ [SampleTx [2] True True, SampleTx [3] True True]\<rparr>)"
    by blast+
  moreover from mutators_sealed [of ?s 8 2000 "[SampleTx [2] True True]"] s
  have "isl (SetNonce ?s 8)" and "isl (SetTimestamp ?s 2000)"
    and "isl (AddTransactions ?s [SampleTx [2] True True])"
    by blast+
  ultimately show ?thesis using u s by (simp only: hd tx simp_thms)
qed

text \<open>
  Claim C7. \<^verbatim>\<open>Seal\<close> on a sealed block returns at once: the block that results is the
  block it was given, so the header with its hash and state root, the transaction list,
  both tries, the pool and the sealed flag are as the first \<^verbatim>\<open>Seal\<close> left them.
\<close>

theorem Seal_sealed:
  "sealed block \<Longrightarrow> Seal E block = block"
  by (simp add: Seal_def)

theorem Seal_sealed_witness:
  "sealed (Seal sample (sample_block [SampleTx [1] True True])) \<and>
   Seal sample (Seal sample (sample_block [SampleTx [1] True True])) =
     Seal sample (sample_block [SampleTx [1] True True])"
proof -
  have s: "sealed (Seal sample (sample_block [SampleTx [1] True True]))" by code_simp
  from Seal_sealed [OF s] s show ?thesis by simp
qed

subsection \<open>Linking\<close>

text \<open>
  Claim C4. When the block's parent hash differs from the parent's hash,
  \<^verbatim>\<open>LinkParentBlock\<close> returns false and the store is the store before the call: the
  state trie, the parent pointer and the height of the block are untouched, and so is
  the parent block and every other block.
\<close>

theorem LinkParentBlock_mismatch:
  "ParentHash (h block) \<noteq> Hash (h parentBlock) \<Longrightarrow>
     LinkParentBlock E h block parentBlock = Some (Inr (False, h))"
  by (simp add: LinkParentBlock_def)

theorem LinkParentBlock_mismatch_witness:
  "ParentHash (sample_store 2) \<noteq> Hash (sample_store 0) \<and>
   LinkParentBlock sample sample_store 2 0 = Some (Inr (False, sample_store))"
proof -
  have m: "ParentHash (sample_store 2) \<noteq> Hash (sample_store 0)"
    by (simp add: sample_store_def sample_chain_block_def ParentHash_def Hash_def)
  from LinkParentBlock_mismatch [OF m] m show ?thesis by simp
qed

subsection \<open>Reward, execution and the state root\<close>

lemma rewardCoinbase_header:
  "coinbase hdr = coinbase (header block) \<Longrightarrow>
     rewardCoinbase E (block\<lparr>header := hdr\<rparr>) =
       (fst (rewardCoinbase E block), (snd (rewardCoinbase E block))\<lparr>header := hdr\<rparr>)"
  by (simp add: rewardCoinbase_def Let_def split: option.splits sum.splits)

lemma rewardCoinbase_frame:
  "header (snd (rewardCoinbase E block)) = header block"
  "transactions (snd (rewardCoinbase E block)) = transactions block"
  "sealed (snd (rewardCoinbase E block)) = sealed block"
  "txsTrie (snd (rewardCoinbase E block)) = txsTrie block"
  "txPool (snd (rewardCoinbase E block)) = txPool block"
  by (simp_all add: rewardCoinbase_def Let_def split: option.splits sum.splits)

lemma executeTransactions_header:
  "executeTransactions E (block\<lparr>header := hdr\<rparr>) = (executeTransactions E block)\<lparr>header := hdr\<rparr>"
  by (simp add: executeTransactions_def split: prod.splits)

lemma executeTransactions_frame:
  "header (executeTransactions E block) = header block"
  "sealed (executeTransactions E block) = sealed block"
  by (simp_all add: executeTransactions_def split: prod.splits)

lemma executeTransactions_no_invalid:
  "invalidTxsOf E block = [] \<Longrightarrow> transactions (executeTransactions E block) = transactions block"
  by (auto simp add: executeTransactions_def invalidTxsOf_def split: prod.splits)

lemma HashBlockStateRoot_header:
  "coinbase hdr = coinbase (header block) \<Longrightarrow>
     HashBlockStateRoot E (block\<lparr>header := hdr\<rparr>) =
       (fst (HashBlockStateRoot E block), (snd (HashBlockStateRoot E block))\<lparr>header := hdr\<rparr>)"
  by (simp add: HashBlockStateRoot_def rewardCoinbase_header executeTransactions_header
      Let_def split: prod.splits)

lemma HashBlockStateRoot_snd:
  "snd (HashBlockStateRoot E block) = executeTransactions E (snd (rewardCoinbase E block))"
  by (simp add: HashBlockStateRoot_def Let_def split: prod.splits)

lemma HashBlockStateRoot_frame:
  "header (snd (HashBlockStateRoot E block)) = header block"
  by (simp add: HashBlockStateRoot_snd executeTransactions_frame rewardCoinbase_frame)

lemma Seal_unsealed:
  "\<not> sealed block \<Longrightarrow>
     Seal E block =
       (snd (HashBlockStateRoot E block))
         \<lparr>header := (header block)\<lparr>hash := HashBlock E block,
                                   stateRoot := fst (HashBlockStateRoot E block)\<rparr>,
          sealed := True\<rparr>"
  by (simp add: Seal_def Let_def HashBlockStateRoot_header HashBlockStateRoot_frame
      split: prod.splits)

text \<open>
  Claim C1, as the code has it. \<^verbatim>\<open>VerifyStateRoot\<close> succeeds on the header that
  \<^verbatim>\<open>Seal\<close> stored when it starts from the state that \<^verbatim>\<open>Seal\<close> started from: the block
  with its transactions, state trie and transaction trie as they were before sealing.
  The reward and the transactions are then applied once, as in \<^verbatim>\<open>Seal\<close>, and the root
  is the stored one.
\<close>

theorem VerifyStateRoot_replay:
  "\<not> sealed block \<Longrightarrow>
     fst (VerifyStateRoot E (block\<lparr>header := header (Seal E block)\<rparr>)) = None"
  by (simp add: Seal_unsealed VerifyStateRoot_def HashBlockStateRoot_header StateRoot_def
      split: prod.splits)

theorem VerifyStateRoot_replay_witness:
  "\<not> sealed (sample_block [SampleTx [1] True True, SampleTx [2] False True]) \<and>
   fst (VerifyStateRoot sample
         ((sample_block [SampleTx [1] True True, SampleTx [2] False True])
            \<lparr>header := header (Seal sample (sample_block [SampleTx [1] True True, SampleTx [2] False True]))\<rparr>))
     = None"
proof -
  have u: "\<not> sealed (sample_block [SampleTx [1] True True, SampleTx [2] False True])"
    by (simp add: sample_block_def)
  from VerifyStateRoot_replay [OF u] u show ?thesis by simp
qed

text \<open>
  Claim C1, as stated, fails. On the instance that \<^verbatim>\<open>Seal\<close> has just sealed,
  \<^verbatim>\<open>VerifyStateRoot\<close> calls \<^verbatim>\<open>HashBlockStateRoot\<close> again, on the trie that already holds
  the reward: the coinbase balance goes from 16 to 32 and the root differs from the
  stored one.
\<close>

theorem VerifyStateRoot_after_Seal_counterexample:
  "\<not> sealed (sample_block []) \<and>
   sealed (Seal sample (sample_block [])) \<and>
   stateRoot (header (Seal sample (sample_block []))) = [9, 0, 0, 0, 0, 0, 0, 0, 16] \<and>
   fst (HashBlockStateRoot sample (Seal sample (sample_block []))) = [9, 0, 0, 0, 0, 0, 0, 0, 32] \<and>
   fst (VerifyStateRoot sample (Seal sample (sample_block []))) = Some ErrInvalidBlockStateRoot"
  by code_simp

text \<open>
  Claim C10. \<^verbatim>\<open>Seal\<close> stores the hash of the block as it is before execution: the
  stored hash is \<^verbatim>\<open>HashBlock\<close> of the block that was given. \<^verbatim>\<open>HashBlock\<close> of the sealed
  block is the digest over the same header fields and the final transaction list. When
  no transaction fails during sealing the list is unchanged and the recomputed hash is
  the stored one; when transactions are removed, the stored hash is still the one of
  the list before removal.
\<close>

theorem Seal_hash_before_execution:
  "\<not> sealed block \<Longrightarrow>
     hash (header (Seal E block)) = HashBlock E block \<and>
     HashBlock E (Seal E block) = HashBlock E (block\<lparr>transactions := transactions (Seal E block)\<rparr>) \<and>
     (invalidTxsOf E (snd (rewardCoinbase E block)) = [] \<longrightarrow>
        transactions (Seal E block) = transactions block \<and>
        HashBlock E (Seal E block) = hash (header (Seal E block)))"
  by (simp add: Seal_unsealed HashBlock_digest HashBlockStateRoot_snd
      executeTransactions_no_invalid rewardCoinbase_frame)

theorem Seal_hash_before_execution_witness:
  "\<not> sealed (sample_block [SampleTx [1] True True, SampleTx [3] True True]) \<and>
   invalidTxsOf sample (snd (rewardCoinbase sample (sample_block [SampleTx [1] True True, SampleTx [3] True True]))) = [] \<and>
   HashBlock sample (Seal sample (sample_block [SampleTx [1] True True, SampleTx [3] True True])) =
     hash (header (Seal sample (sample_block [SampleTx [1] True True, SampleTx [3] True True]))) \<and>
   \<not> sealed (sample_block [SampleTx [1] True True, SampleTx [2] False True, SampleTx [3] True True]) \<and>
   transactions (Seal sample (sample_block [SampleTx [1] True True, SampleTx [2] False True, SampleTx [3] True True])) =
     [SampleTx [1] True True, SampleTx [3] True True] \<and>
   hash (header (Seal sample (sample_block [SampleTx [1] True True, SampleTx [2] False True, SampleTx [3] True True]))) =
     HashBlock sample (sample_block [SampleTx [1] True True, SampleTx [2] False True, SampleTx [3] True True]) \<and>
   HashBlock sample (Seal sample (sample_block [SampleTx [1] True True, SampleTx [2] False True, SampleTx [3] True True])) \<noteq>
     hash (header (Seal sample (sample_block [SampleTx [1] True True, SampleTx [2] False True, SampleTx [3] True True])))"
proof -
  let ?ok = "sample_block [SampleTx [1] True True, SampleTx [3] True True]"
  let ?bad = "sample_block [SampleTx [1] True True, SampleTx [2] False True, SampleTx [3] True True]"
  have u1: "\<not> sealed ?ok" by (simp add: sample_block_def)
  have i1: "invalidTxsOf sample (snd (rewardCoinbase sample ?ok)) = []" by code_simp
  have u2: "\<not> sealed ?bad" by (simp add: sample_block_def)
  have t2: "transactions (Seal sample ?bad) = [SampleTx [1] True True, SampleTx [3] True True]"
    by code_simp
  have n2: "HashBlock sample (Seal sample ?bad) \<noteq> hash (header (Seal sample ?bad))"
    by code_simp
  from Seal_hash_before_execution [OF u1] i1
  have "HashBlock sample (Seal sample ?ok) = hash (header (Seal sample ?ok))" by blast
  moreover from Seal_hash_before_execution [OF u2]
  have "hash (header (Seal sample ?bad)) = HashBlock sample ?bad" by blast
  ultimately show ?thesis using u1 i1 u2 t2 n2 by blast
qed

lemma executeLoop_indices:
  "executeLoop E i txs (s, t, acc) = (s', t', ivs) \<Longrightarrow>
     \<exists>new. ivs = acc @ new \<and> sorted_wrt (<) new \<and> (\<forall>j \<in> set new. i \<le> j \<and> j < i + length txs)"
proof (induction txs arbitrary: i s t acc)
  case Nil
  then show ?case by simp
next
  case (Cons tx txs)
  obtain err s1 t1 where ex: "tx_Execute E tx s t = (err, s1, t1)"
    by (cases "tx_Execute E tx s t") auto
  let ?acc = "if err \<noteq> None then acc @ [i] else acc"
  from Cons.prems ex have "executeLoop E (i + 1) txs (s1, t1, ?acc) = (s', t', ivs)"
    by simp
  from Cons.IH [OF this] obtain new where
    new: "ivs = ?acc @ new" "sorted_wrt (<) new" "\<forall>j \<in> set new. i + 1 \<le> j \<and> j < i + 1 + length txs"
    by blast
  show ?case
  proof (cases "err \<noteq> None")
    case True
    with new have "ivs = acc @ (i # new)" by simp
    moreover from new have "sorted_wrt (<) (i # new)" by auto
    moreover from new have "\<forall>j \<in> set (i # new). i \<le> j \<and> j < i + length (tx # txs)" by auto
    ultimately show ?thesis by blast
  next
    case False
    with new have "ivs = acc @ new" by simp
    moreover from new have "\<forall>j \<in> set new. i \<le> j \<and> j < i + length (tx # txs)" by auto
    ultimately show ?thesis using new(2) by blast
  qed
qed

lemma removeLoop_in_bounds_descending:
  "sorted_wrt (>) idxs \<Longrightarrow> \<forall>j \<in> set idxs. j < length txs \<Longrightarrow> removeLoop_in_bounds n idxs txs"
proof (induction idxs arbitrary: txs)
  case Nil
  then show ?case by simp
next
  case (Cons idx rest)
  from Cons.prems have idx: "idx < length txs" and rest: "\<forall>j \<in> set rest. j < idx"
    and sorted: "sorted_wrt (>) rest"
    by auto
  have "removeLoop_in_bounds n rest (take idx txs)"
    using idx rest by (intro Cons.IH [OF sorted]) simp
  moreover have "removeLoop_in_bounds n rest (drop 0 txs)"
    using idx rest by (intro Cons.IH [OF sorted]) auto
  moreover have "removeLoop_in_bounds n rest (take idx txs @ drop (idx + 1) txs)"
    using idx rest by (intro Cons.IH [OF sorted]) auto
  ultimately show ?case using idx by auto
qed

lemma removeLoop_in_range:
  "removeLoop_in_bounds (length (transactions block)) (rev (invalidTxsOf E block))
     (transactions block)"
proof -
  obtain s' t' ivs where
    run: "executeLoop E 0 (transactions block) (stateTrie block, txsTrie block, []) = (s', t', ivs)"
    by (cases "executeLoop E 0 (transactions block) (stateTrie block, txsTrie block, [])") auto
  from executeLoop_indices [OF run]
  have "sorted_wrt (<) ivs" and "\<forall>j \<in> set ivs. j < length (transactions block)"
    by auto
  then have "sorted_wrt (>) (rev ivs)" and "\<forall>j \<in> set (rev ivs). j < length (transactions block)"
    by (simp_all add: sorted_wrt_rev)
  then have "removeLoop_in_bounds (length (transactions block)) (rev ivs) (transactions block)"
    by (rule removeLoop_in_bounds_descending)
  with run show ?thesis by (simp add: invalidTxsOf_def)
qed

text \<open>One invalid transaction at index \<open>k\<close>: it is put into the pool, and it is cut
  out of the list when it is the last one or not the first one.\<close>

lemma executeTransactions_single_invalid:
  assumes "invalidTxsOf E block = [k]"
    and "k = length (transactions block) - 1 \<or> 0 < k"
  shows "transactions (executeTransactions E block) =
           take k (transactions block) @ drop (Suc k) (transactions block)"
    and "txPool (executeTransactions E block) = pool_Put E (txPool block) (transactions block ! k)"
  using assms
  by (auto simp add: executeTransactions_def invalidTxsOf_def Let_def
      split: prod.splits if_splits)

text \<open>One invalid transaction at index 0 of a longer list: it is put into the pool, and
  \<^verbatim>\<open>txs = txs[0:]\<close> leaves the list as it is.\<close>

lemma executeTransactions_first_invalid:
  assumes "invalidTxsOf E block = [0]"
    and "2 \<le> length (transactions block)"
  shows "transactions (executeTransactions E block) = transactions block"
    and "txPool (executeTransactions E block) = pool_Put E (txPool block) (transactions block ! 0)"
  using assms
  by (auto simp add: executeTransactions_def invalidTxsOf_def Let_def split: prod.splits)

text \<open>
  Claim C2 fails at index 0. In a block of two transactions of which the first fails
  and the second executes, \<^verbatim>\<open>executeTransactions\<close> records index 0 as invalid and puts
  that transaction into the pool, but the block still holds both transactions
  afterwards. With the failing transaction at index 1 of three, or alone, the list
  loses it as claimed.
\<close>

theorem executeTransactions_first_invalid_kept:
  "invalidTxsOf sample (sample_block [SampleTx [1] False True, SampleTx [2] True True]) = [0] \<and>
   transactions (executeTransactions sample (sample_block [SampleTx [1] False True, SampleTx [2] True True])) =
     [SampleTx [1] False True, SampleTx [2] True True] \<and>
   txPool (executeTransactions sample (sample_block [SampleTx [1] False True, SampleTx [2] True True])) =
     [SampleTx [1] False True] \<and>
   transactions (executeTransactions sample
       (sample_block [SampleTx [1] True True, SampleTx [2] False True, SampleTx [3] True True])) =
     [SampleTx [1] True True, SampleTx [3] True True] \<and>
   transactions (executeTransactions sample (sample_block [SampleTx [1] False True])) = []"
  by code_simp

lemma rewardCoinbase_error:
  "fst (rewardCoinbase E block) = Some err \<longleftrightarrow>
     (\<exists>v. trie_Get E (stateTrie block) (address (coinbase (header block))) = Some v \<and>
          proto_Unmarshal E v = Inl err) \<or>
     (\<exists>account.
        (case trie_Get E (stateTrie block) (address (coinbase (header block))) of
           None \<Rightarrow> Inr new_Account
         | Some v \<Rightarrow> proto_Unmarshal E v) = Inr account \<and>
        proto_Marshal E (account\<lparr>Balance := Balance account + BlockReward\<rparr>) = Inl err)"
  by (auto simp add: rewardCoinbase_def Let_def split: option.splits sum.splits)

lemma rewardCoinbase_error_block:
  "fst (rewardCoinbase E block) = Some err \<Longrightarrow> snd (rewardCoinbase E block) = block"
  by (auto simp add: rewardCoinbase_def Let_def split: option.splits sum.splits)

text \<open>\<^verbatim>\<open>HashBlockStateRoot\<close> drops the error of \<^verbatim>\<open>rewardCoinbase\<close>: the transactions are
  executed on the trie without the reward and the root of that trie is returned.\<close>

lemma HashBlockStateRoot_reward_error:
  "fst (rewardCoinbase E block) = Some err \<Longrightarrow>
     HashBlockStateRoot E block =
       (trie_RootHash E (stateTrie (executeTransactions E block)), executeTransactions E block)"
  using rewardCoinbase_error_block [of E block err]
  by (cases "rewardCoinbase E block") (simp add: HashBlockStateRoot_def Let_def)

text \<open>
  Claim C8 fails in its second half. The state trie holds three bytes under the coinbase
  address, which do not decode. \<^verbatim>\<open>rewardCoinbase\<close> returns the decoding error and leaves
  the trie alone, as claimed; \<^verbatim>\<open>HashBlockStateRoot\<close> ignores it, executes the
  transaction and returns the root of the resulting trie, and \<^verbatim>\<open>Seal\<close> stores that
  root and seals the block.
\<close>

theorem HashBlockStateRoot_ignores_reward_error:
  "rewardCoinbase sample ((sample_block [SampleTx [1] True True])\<lparr>stateTrie := [([9], [1, 2, 3])]\<rparr>) =
     (Some (ErrExternal ''unmarshal fail''),
      (sample_block [SampleTx [1] True True])\<lparr>stateTrie := [([9], [1, 2, 3])]\<rparr>) \<and>
   fst (HashBlockStateRoot sample
         ((sample_block [SampleTx [1] True True])\<lparr>stateTrie := [([9], [1, 2, 3])]\<rparr>)) =
     [1, 1, 9, 1, 2, 3] \<and>
   stateTrie (Seal sample ((sample_block [SampleTx [1] True True])\<lparr>stateTrie := [([9], [1, 2, 3])]\<rparr>)) =
     [([1], [1]), ([9], [1, 2, 3])] \<and>
   stateRoot (header (Seal sample
         ((sample_block [SampleTx [1] True True])\<lparr>stateTrie := [([9], [1, 2, 3])]\<rparr>))) =
     [1, 1, 9, 1, 2, 3] \<and>
   sealed (Seal sample ((sample_block [SampleTx [1] True True])\<lparr>stateTrie := [([9], [1, 2, 3])]\<rparr>))"
  by code_simp

subsection \<open>Verification\<close>

lemma verifyTransactions_find:
  "verifyTransactions E txs =
     (case find (\<lambda>tx. tx_Verify E tx \<noteq> None) txs of
        None \<Rightarrow> None
      | Some tx \<Rightarrow> tx_Verify E tx)"
  by (induction txs) (auto split: option.splits)

lemma verifyTransactions_None:
  "verifyTransactions E txs = None \<longleftrightarrow> (\<forall>tx \<in> set txs. tx_Verify E tx = None)"
  by (induction txs) (auto split: option.splits)

lemma VerifyHash_None:
  "VerifyHash E bc block = None \<longleftrightarrow>
     ConsensusHandler_VerifyBlock bc block = None \<and>
     HashBlock E block = hash (header block) \<and>
     (\<forall>tx \<in> set (transactions block). tx_Verify E tx = None)"
proof (cases "ConsensusHandler_VerifyBlock bc block")
  case None
  then show ?thesis
    by (simp add: VerifyHash_def Hash_def Let_def verifyTransactions_None)
next
  case (Some err)
  then show ?thesis by (simp add: VerifyHash_def)
qed

lemma Verify_stage_order:
  "fst (Verify E bc block) = None \<longleftrightarrow>
     VerifyHash E bc block = None \<and> fst (VerifyStateRoot E block) = None"
  by (simp add: Verify_def split: option.splits)

text \<open>
  Claim C9. \<^verbatim>\<open>VerifyHash\<close> first asks the consensus backend and returns its error as
  it is; then it compares \<^verbatim>\<open>HashBlock\<close> with the stored hash and returns
  \<^verbatim>\<open>ErrInvalidBlockHash\<close> when they differ; then it returns the error of the first
  transaction in list order that does not verify. \<^verbatim>\<open>Verify\<close> returns the error of
  \<^verbatim>\<open>VerifyHash\<close> with the block as it was, without the state root stage, and is
  \<^verbatim>\<open>VerifyStateRoot\<close> otherwise. It returns no error exactly when the consensus check,
  the hash comparison, every transaction and the state root comparison pass.
\<close>

theorem Verify_stages:
  "VerifyHash E bc block =
     (case ConsensusHandler_VerifyBlock bc block of
        Some err \<Rightarrow> Some err
      | None \<Rightarrow>
          if HashBlock E block \<noteq> hash (header block) then Some ErrInvalidBlockHash
          else (case find (\<lambda>tx. tx_Verify E tx \<noteq> None) (transactions block) of
                  Some tx \<Rightarrow> tx_Verify E tx
                | None \<Rightarrow> None))
   \<and> Verify E bc block =
     (case ConsensusHandler_VerifyBlock bc block of
        Some err \<Rightarrow> (Some err, block)
      | None \<Rightarrow>
          if HashBlock E block \<noteq> hash (header block) then (Some ErrInvalidBlockHash, block)
          else (case find (\<lambda>tx. tx_Verify E tx \<noteq> None) (transactions block) of
                  Some tx \<Rightarrow> (tx_Verify E tx, block)
                | None \<Rightarrow> VerifyStateRoot E block))
   \<and> (fst (Verify E bc block) = None \<longleftrightarrow>
        ConsensusHandler_VerifyBlock bc block = None \<and>
        HashBlock E block = hash (header block) \<and>
        (\<forall>tx \<in> set (transactions block). tx_Verify E tx = None) \<and>
        fst (VerifyStateRoot E block) = None)"
proof (intro conjI)
  show vh: "VerifyHash E bc block =
     (case ConsensusHandler_VerifyBlock bc block of
        Some err \<Rightarrow> Some err
      | None \<Rightarrow>
          if HashBlock E block \<noteq> hash (header block) then Some ErrInvalidBlockHash
          else (case find (\<lambda>tx. tx_Verify E tx \<noteq> None) (transactions block) of
                  Some tx \<Rightarrow> tx_Verify E tx
                | None \<Rightarrow> None))"
    by (simp add: VerifyHash_def Hash_def Let_def verifyTransactions_find
        split: option.splits)
  show "Verify E bc block =
     (case ConsensusHandler_VerifyBlock bc block of
        Some err \<Rightarrow> (Some err, block)
      | None \<Rightarrow>
          if HashBlock E block \<noteq> hash (header block) then (Some ErrInvalidBlockHash, block)
          else (case find (\<lambda>tx. tx_Verify E tx \<noteq> None) (transactions block) of
                  Some tx \<Rightarrow> (tx_Verify E tx, block)
                | None \<Rightarrow> VerifyStateRoot E block))"
    unfolding Verify_def vh
    by (auto split: option.splits dest: find_Some_iff [THEN iffD1])
  show "fst (Verify E bc block) = None \<longleftrightarrow>
        ConsensusHandler_VerifyBlock bc block = None \<and>
        HashBlock E block = hash (header block) \<and>
        (\<forall>tx \<in> set (transactions block). tx_Verify E tx = None) \<and>
        fst (VerifyStateRoot E block) = None"
    unfolding Verify_stage_order VerifyHash_None by (simp only: conj_assoc)
qed

theorem Verify_stages_witness:
  "ConsensusHandler_VerifyBlock sample_chain (sample_received [SampleTx [1] True True]) = None \<and>
   HashBlock sample (sample_received [SampleTx [1] True True]) =
     hash (header (sample_received [SampleTx [1] True True])) \<and>
   transactions (sample_received [SampleTx [1] True True]) = [SampleTx [1] True True] \<and>
   tx_Verify sample (SampleTx [1] True True) = None \<and>
   fst (VerifyStateRoot sample (sample_received [SampleTx [1] True True])) = None \<and>
   fst (Verify sample sample_chain (sample_received [SampleTx [1] True True])) = None"
proof -
  let ?b = "sample_received [SampleTx [1] True True]"
  have c: "ConsensusHandler_VerifyBlock sample_chain ?b = None" by code_simp
  have h: "HashBlock sample ?b = hash (header ?b)" by code_simp
  have l: "transactions ?b = [SampleTx [1] True True]" by code_simp
  have v: "tx_Verify sample (SampleTx [1] True True) = None" by code_simp
  have r: "fst (VerifyStateRoot sample ?b) = None" by code_simp
  from l v have t: "\<forall>tx \<in> set (transactions ?b). tx_Verify sample tx = None" by simp
  from Verify_stages [of sample sample_chain ?b] c h t r
  have "fst (Verify sample sample_chain ?b) = None" by blast
  with c h l v r show ?thesis by blast
qed

subsection \<open>Height resolution\<close>








text \<open>A walk that returns has passed such a list of blocks: the hypothesis on the walk
  in the theorem below says no more than that the first loop ends.\<close>

lemma travel_returns_path:
  assumes "travel h ancestor depth ancestorHeight = Some r"
  shows "\<forall>a. ancestor = Some a \<longrightarrow> (\<exists>xs t. unresolved h a xs t)"
proof (rule travel.raw_induct
    [where P = "\<lambda>h ancestor depth ancestorHeight r.
                  \<forall>a. ancestor = Some a \<longrightarrow> (\<exists>xs t. unresolved h a xs t)", OF _ assms])
  fix travel' :: "(addr \<Rightarrow> ('a, 'b, 'c) Block) \<Rightarrow> addr option \<Rightarrow> 64 word \<Rightarrow> 64 word
      \<Rightarrow> (64 word \<times> 64 word) option"
    and h :: "addr \<Rightarrow> ('a, 'b, 'c) Block" and ancestor depth ancestorHeight r
  assume IH: "\<And>h ancestor depth ancestorHeight r.
      travel' h ancestor depth ancestorHeight = Some r \<Longrightarrow>
      \<forall>a. ancestor = Some a \<longrightarrow> (\<exists>xs t. unresolved h a xs t)"
    and body: "(case ancestor of
        None \<Rightarrow> Some (depth, ancestorHeight)
      | Some a \<Rightarrow>
          if height (h a) > 0 then Some (depth + 1, height (h a))
          else travel' h (parenetBlock (h a)) (depth + 1) (height (h a))) = Some r"
  show "\<forall>a. ancestor = Some a \<longrightarrow> (\<exists>xs t. unresolved h a xs t)"
  proof (intro allI impI)
    fix a assume a: "ancestor = Some a"
    show "\<exists>xs t. unresolved h a xs t"
    proof (cases "0 < height (h a) \<or> parenetBlock (h a) = None")
      case True
      then have "unresolved h a [] a" by simp
      then show ?thesis by blast
    next
      case False
      then obtain y where y: "height (h a) = 0" "parenetBlock (h a) = Some y"
        by (auto simp: word_gt_0)
      with body a have "travel' h (Some y) (depth + 1) (height (h a)) = Some r" by simp
      from IH [OF this] obtain xs t where "unresolved h y xs t" by blast
      with y have "unresolved h a (a # xs) t" by simp
      then show ?thesis by blast
    qed
  qed
qed

lemma LinkParentBlock_clone_fails:
  "ParentHash (h block) = Hash (h parentBlock) \<Longrightarrow>
   trie_Clone E (stateTrie (h parentBlock)) = Inl err \<Longrightarrow>
     LinkParentBlock E h block parentBlock =
       Some (Inl (Panic ''clone state trie from parent block fail.''))"
  by (simp add: LinkParentBlock_def)



end
